theory Spec2Isabelle
  imports Main
begin

section \<open>JavaScript values seen by the adapter\<close>

text \<open>
  The adapter of \<^verbatim>\<open>src/index.js\<close> probes the values it is given in three ways only:
  by truthiness (\<^verbatim>\<open>id && ...\<close>), by \<^verbatim>\<open>typeof id == "string"\<close>, and by looking up the members
  \<^verbatim>\<open>toHexString\<close> and \<^verbatim>\<open>toString\<close> and calling them. A value is therefore a primitive or an
  object that carries, for each of the two members, either nothing or the value the
  method returns when it is called. Numbers are the integral ones (identifiers), whose
  \<^verbatim>\<open>toString()\<close> is the decimal numeral. The \<open>nat\<close> of an object tells objects apart.
\<close>

datatype jsval =
    Undefined
  | Null
  | Bool bool
  | Num int
  | Str string
  | Obj nat "jsval option" "jsval option"

text \<open>ToBoolean of the language: the falsy values are \<^verbatim>\<open>undefined\<close>, \<^verbatim>\<open>null\<close>,
  \<^verbatim>\<open>false\<close>, \<^verbatim>\<open>0\<close> and the empty string; every object is truthy.\<close>

fun truthy :: "jsval \<Rightarrow> bool" where
  "truthy Undefined = False"
| "truthy Null = False"
| "truthy (Bool b) = b"
| "truthy (Num n) = (n \<noteq> 0)"
| "truthy (Str s) = (s \<noteq> [])"
| "truthy (Obj t h s) = True"

fun dec_nat :: "nat \<Rightarrow> string" where
  "dec_nat n =
     (if n < 10 then [''0123456789'' ! n]
      else dec_nat (n div 10) @ [''0123456789'' ! (n mod 10)])"

declare dec_nat.simps [simp del]

definition dec_int :: "int \<Rightarrow> string" where
  "dec_int i = (if i < 0 then CHR ''-'' # dec_nat (nat (- i)) else dec_nat (nat i))"

text \<open>The member \<^verbatim>\<open>toHexString\<close> of a value: only an object can carry one (no primitive
  prototype has it). \<open>Some r\<close> is a method that returns \<open>r\<close>.\<close>

fun toHexString :: "jsval \<Rightarrow> jsval option" where
  "toHexString (Obj t h s) = h"
| "toHexString v = None"

text \<open>The member \<^verbatim>\<open>toString\<close> of a value: booleans, numbers and strings have it from
  their prototypes, also when they are falsy; \<^verbatim>\<open>undefined\<close> and \<^verbatim>\<open>null\<close> have no members
  at all; an object has what it carries.\<close>

fun toString :: "jsval \<Rightarrow> jsval option" where
  "toString Undefined = None"
| "toString Null = None"
| "toString (Bool b) = Some (Str (if b then ''true'' else ''false''))"
| "toString (Num n) = Some (Str (dec_int n))"
| "toString (Str s) = Some (Str s)"
| "toString (Obj t h s) = s"

section \<open>Calls that leave the adapter\<close>

text \<open>Every call into a collaborator (a method of a value, the mongoose library, the
  service's logger) is recorded, in order, so that "is called", "is never called" and
  "is called once" are statements about the list a function returns.\<close>

datatype event =
    Call_toJSON
  | Call_toHexString jsval
  | Call_toString jsval
  | Call_isValid string
  | Call_new_Schema_Types_ObjectId string
  | Call_mongoose_connect jsval jsval
  | Call_mongoose_model jsval jsval
  | Call_logger_info string
  | Call_db_on string

datatype error =
    ServiceSchemaError string
  | TypeError
  | MongoError string

text \<open>The mongoose library is not part of the repository; what the adapter uses of it is
  a parameter. The library has two things called \<^verbatim>\<open>ObjectId\<close>:
  \<^verbatim>\<open>mongoose.Types.ObjectId\<close>, the identifier type of the database, with its validity check
  \<^verbatim>\<open>isValid\<close> and its constructor, and \<^verbatim>\<open>mongoose.Schema.Types.ObjectId\<close>, the schema type
  that describes a path holding such identifiers, with its constructor. Then how the
  promise of \<^verbatim>\<open>mongoose.connect(uri, opts)\<close> settles (\<open>Inl\<close> rejects),
  \<^verbatim>\<open>mongoose.connection\<close> and \<^verbatim>\<open>mongoose.model(name, schema)\<close>.\<close>

record mongoose =
  isValid :: "string \<Rightarrow> bool"
  new_Types_ObjectId :: "string \<Rightarrow> jsval"
  new_Schema_Types_ObjectId :: "string \<Rightarrow> jsval"
  mongoose_connect :: "jsval \<Rightarrow> jsval \<Rightarrow> error + jsval"
  connection :: jsval
  mongoose_model :: "jsval \<Rightarrow> jsval \<Rightarrow> jsval"

section \<open>Identifier type conversion\<close>

text \<open>
  \<^verbatim>\<open>stringToObjectID (id) {
    if (typeof id == "string" && mongoose.Types.ObjectId.isValid(id))
      return new mongoose.Schema.Types.ObjectId(id);
    return id; }\<close>
\<close>

fun stringToObjectID :: "mongoose \<Rightarrow> jsval \<Rightarrow> jsval \<times> event list" where
  "stringToObjectID lib (Str s) =
     (if isValid lib s then
        (new_Schema_Types_ObjectId lib s, [Call_isValid s, Call_new_Schema_Types_ObjectId s])
      else (Str s, [Call_isValid s]))"
| "stringToObjectID lib v = (v, [])"

text \<open>
  \<^verbatim>\<open>objectIDToString (id) {
    if(id && id.toString)
      return id.toString();
    return id; }\<close>
\<close>

definition objectIDToString :: "jsval \<Rightarrow> jsval \<times> event list" where
  "objectIDToString v =
     (if truthy v then
        (case toString v of
           Some r \<Rightarrow> (r, [Call_toString v])
         | None \<Rightarrow> (v, []))
      else (v, []))"

section \<open>Entity serialization\<close>

text \<open>The fields a record has of its own, by name.\<close>

type_synonym plain = "string \<rightharpoonup> jsval"

text \<open>An entity of the document library, as far as the adapter looks at it: its
  \<^verbatim>\<open>toJSON\<close> method (\<open>None\<close> when the entity has none, \<open>Some json\<close> when calling it gives the
  record \<open>json\<close>) and its raw \<^verbatim>\<open>_id\<close>.\<close>

record entity =
  toJSON :: "plain option"
  raw_id :: jsval

text \<open>
  \<^verbatim>\<open>entityToObject(entity) {
    let json = entity.toJSON();
    if (entity._id && entity._id.toHexString) {
      json._id = entity._id.toHexString();
    } else if (entity._id && entity._id.toString) {
      json._id = entity._id.toString();
    }
    return json; }\<close>
  Calling a missing \<^verbatim>\<open>toJSON\<close> throws a TypeError.
\<close>

definition entityToObject :: "entity \<Rightarrow> (error + plain) \<times> event list" where
  "entityToObject e =
     (case toJSON e of
        None \<Rightarrow> (Inl TypeError, [])
      | Some json \<Rightarrow>
          (case (if truthy (raw_id e) then toHexString (raw_id e) else None) of
             Some hex \<Rightarrow>
               (Inr (json(''_id'' \<mapsto> hex)), [Call_toJSON, Call_toHexString (raw_id e)])
           | None \<Rightarrow>
               (case (if truthy (raw_id e) then toString (raw_id e) else None) of
                  Some str \<Rightarrow>
                    (Inr (json(''_id'' \<mapsto> str)), [Call_toJSON, Call_toString (raw_id e)])
                | None \<Rightarrow> (Inr json, [Call_toJSON]))))"

text \<open>The normalisation as the specification words it: the hex conversion when the raw
  identifier exposes one, else the generic string conversion when it exposes one, else
  the serialized record as it is. Exposing is having the member.\<close>

definition entityToObject_spec :: "entity \<Rightarrow> plain \<Rightarrow> plain \<times> event list" where
  "entityToObject_spec e json =
     (case toHexString (raw_id e) of
        Some r \<Rightarrow> (json(''_id'' \<mapsto> r), [Call_toJSON, Call_toHexString (raw_id e)])
      | None \<Rightarrow>
          (case toString (raw_id e) of
             Some r \<Rightarrow> (json(''_id'' \<mapsto> r), [Call_toJSON, Call_toString (raw_id e)])
           | None \<Rightarrow> (json, [Call_toJSON])))"

section \<open>Identifier field translation on shared records\<close>

text \<open>The two transforms differ in whether the caller's object is touched, so records live
  in a store. A record is an ordinary extensible object with data fields: the fields it
  has of its own, and a prototype, through which names it does not have are read.
  The prototype is \<^verbatim>\<open>Object.prototype\<close> (object literals, \<^verbatim>\<open>JSON.parse\<close>), nothing
  (\<^verbatim>\<open>Object.create(null)\<close>), or some other object.\<close>

datatype proto = Object_prototype | Null_prototype | Other_prototype jsval

record js_object =
  own :: plain
  proto :: proto

type_synonym addr = nat

text \<open>An address holds an object, and \<open>next_addr\<close> is the address that \<^verbatim>\<open>{}\<close> allocates.\<close>

record heap =
  objs :: "addr \<Rightarrow> js_object"
  next_addr :: addr

text \<open>The members of the standard \<^verbatim>\<open>Object.prototype\<close>, as an object whose prototype it is
  reads them: the constructor \<^verbatim>\<open>Object\<close>, the built-in methods, and \<^verbatim>\<open>__proto__\<close>, an accessor
  whose getter gives the prototype, here \<^verbatim>\<open>Object.prototype\<close> itself. Every other name is
  \<^verbatim>\<open>undefined\<close>.\<close>

definition native_function :: "string \<Rightarrow> jsval" where
  "native_function name =
     Obj 1 None (Some (Str (''function '' @ name @ ''() { [native code] }'')))"

definition Object_prototype_value :: jsval where
  "Object_prototype_value = Obj 0 None (Some (Str ''[object Object]''))"

definition Object_prototype_methods :: "string list" where
  "Object_prototype_methods =
     [''__defineGetter__'', ''__defineSetter__'', ''hasOwnProperty'', ''__lookupGetter__'',
      ''__lookupSetter__'', ''isPrototypeOf'', ''propertyIsEnumerable'', ''toString'',
      ''valueOf'', ''toLocaleString'']"

definition Object_prototype_member :: "string \<Rightarrow> jsval" where
  "Object_prototype_member k =
     (if k = ''__proto__'' then Object_prototype_value
      else if k = ''constructor'' then native_function ''Object''
      else if k \<in> set Object_prototype_methods then native_function k
      else Undefined)"

text \<open>What an object whose prototype is some other object \<open>v\<close> inherits is not decided by
  the adapter; it is a parameter: the value a name reads as through \<open>v\<close>, and whether the
  \<^verbatim>\<open>__proto__\<close> accessor of \<^verbatim>\<open>Object.prototype\<close> is reached through \<open>v\<close>.\<close>

record runtime =
  inherited_from :: "jsval \<Rightarrow> string \<Rightarrow> jsval"
  proto_accessor_from :: "jsval \<Rightarrow> bool"

definition inherited :: "runtime \<Rightarrow> proto \<Rightarrow> string \<Rightarrow> jsval" where
  "inherited rt p k =
     (case p of
        Object_prototype \<Rightarrow> Object_prototype_member k
      | Null_prototype \<Rightarrow> Undefined
      | Other_prototype v \<Rightarrow> inherited_from rt v k)"

definition has_proto_accessor :: "runtime \<Rightarrow> proto \<Rightarrow> bool" where
  "has_proto_accessor rt p =
     (case p of
        Object_prototype \<Rightarrow> True
      | Null_prototype \<Rightarrow> False
      | Other_prototype v \<Rightarrow> proto_accessor_from rt v)"

text \<open>\<^verbatim>\<open>entity[k]\<close>: the object's own field when it has one, else what it inherits.\<close>

definition read_prop :: "runtime \<Rightarrow> heap \<Rightarrow> addr \<Rightarrow> string \<Rightarrow> jsval" where
  "read_prop rt h a k =
     (case own (objs h a) k of
        Some v \<Rightarrow> v
      | None \<Rightarrow> inherited rt (proto (objs h a)) k)"

text \<open>The setter of the \<^verbatim>\<open>__proto__\<close> accessor: an object or \<^verbatim>\<open>null\<close> becomes the prototype,
  any other value is dropped.\<close>

definition set_proto :: "proto \<Rightarrow> jsval \<Rightarrow> proto" where
  "set_proto p v =
     (case v of
        Null \<Rightarrow> Null_prototype
      | Obj t x y \<Rightarrow> Other_prototype v
      | _ \<Rightarrow> p)"

text \<open>An assignment of the name \<open>k\<close> goes to that setter when \<open>k\<close> is \<^verbatim>\<open>"__proto__"\<close>, the
  object has no field of that name of its own, and it inherits the accessor.\<close>

definition assigns_through_setter :: "runtime \<Rightarrow> js_object \<Rightarrow> string \<Rightarrow> bool" where
  "assigns_through_setter rt ob k =
     (k = ''__proto__'' \<and> own ob k = None \<and> has_proto_accessor rt (proto ob))"

text \<open>\<^verbatim>\<open>entity[k] = v\<close>: through the setter, which creates no field, or else a field of
  the object's own, created or overwritten.\<close>

definition assign_prop :: "runtime \<Rightarrow> heap \<Rightarrow> addr \<Rightarrow> string \<Rightarrow> jsval \<Rightarrow> heap" where
  "assign_prop rt h a k v =
     (if assigns_through_setter rt (objs h a) k then
        h\<lparr>objs := (objs h)(a := (objs h a)\<lparr>proto := set_proto (proto (objs h a)) v\<rparr>)\<rparr>
      else h\<lparr>objs := (objs h)(a := (objs h a)\<lparr>own := (own (objs h a))(k \<mapsto> v)\<rparr>)\<rparr>)"

text \<open>\<^verbatim>\<open>delete entity[k]\<close> removes a field of the object's own and nothing else.\<close>

definition delete_prop :: "heap \<Rightarrow> addr \<Rightarrow> string \<Rightarrow> heap" where
  "delete_prop h a k =
     h\<lparr>objs := (objs h)(a := (objs h a)\<lparr>own := (own (objs h a))(k := None)\<rparr>)\<rparr>"

text \<open>\<^verbatim>\<open>Object.assign({}, entity)\<close>: a fresh object with prototype \<^verbatim>\<open>Object.prototype\<close>, to
  which each field \<open>entity\<close> has of its own is assigned. For every name but
  \<^verbatim>\<open>"__proto__"\<close> that creates the field; an own \<^verbatim>\<open>"__proto__"\<close> of \<open>entity\<close> is assigned like
  any other and so goes to the setter of the fresh object.\<close>

definition Object_assign_new :: "runtime \<Rightarrow> heap \<Rightarrow> addr \<Rightarrow> addr \<times> heap" where
  "Object_assign_new rt h entity =
     (let h1 =
        h\<lparr>objs := (objs h)
               (next_addr h :=
                  \<lparr>own = (own (objs h entity))(''__proto__'' := None),
                   proto = Object_prototype\<rparr>),
          next_addr := Suc (next_addr h)\<rparr>
      in case own (objs h entity) ''__proto__'' of
           None \<Rightarrow> (next_addr h, h1)
         | Some v \<Rightarrow> (next_addr h, assign_prop rt h1 (next_addr h) ''__proto__'' v))"

text \<open>
  \<^verbatim>\<open>beforeSaveTransformID (entity, idField) {
    if (idField !== "_id" && entity[idField] !== undefined) {
      const newEntity = Object.assign({}, entity)
      newEntity._id = this.stringToObjectID(entity[idField]);
      delete newEntity[idField];
      return newEntity;
    }
    return entity; }\<close>
\<close>

definition beforeSaveTransformID ::
  "runtime \<Rightarrow> mongoose \<Rightarrow> heap \<Rightarrow> addr \<Rightarrow> string \<Rightarrow> addr \<times> heap \<times> event list" where
  "beforeSaveTransformID rt lib h entity idField =
     (if idField \<noteq> ''_id'' \<and> read_prop rt h entity idField \<noteq> Undefined then
        (case Object_assign_new rt h entity of
           (newEntity, h1) \<Rightarrow>
             (case stringToObjectID lib (read_prop rt h1 entity idField) of
                (oid, evs) \<Rightarrow>
                  (newEntity,
                   delete_prop (assign_prop rt h1 newEntity ''_id'' oid) newEntity idField,
                   evs)))
      else (entity, h, []))"

text \<open>
  \<^verbatim>\<open>afterRetrieveTransformID (entity, idField) {
    if (idField !== "_id") {
      entity[idField] = this.objectIDToString(entity["_id"]);
      delete entity._id;
    }
    return entity; }\<close>
\<close>

definition afterRetrieveTransformID ::
  "runtime \<Rightarrow> heap \<Rightarrow> addr \<Rightarrow> string \<Rightarrow> addr \<times> heap \<times> event list" where
  "afterRetrieveTransformID rt h entity idField =
     (if idField \<noteq> ''_id'' then
        (case objectIDToString (read_prop rt h entity ''_id'') of
           (s, evs) \<Rightarrow>
             (entity, delete_prop (assign_prop rt h entity idField s) entity ''_id'', evs))
      else (entity, h, []))"

text \<open>The record the first sentence on \<open>beforeSaveTransformID\<close> describes: the fields of the
  entry, with \<^verbatim>\<open>_id\<close> set to the converted value and the field \<open>idField\<close> removed.\<close>

definition beforeSave_fields_spec :: "plain \<Rightarrow> string \<Rightarrow> jsval \<Rightarrow> plain" where
  "beforeSave_fields_spec m idField oid = (m(''_id'' \<mapsto> oid))(idField := None)"

section \<open>The adapter: construction, initialization, connection\<close>

text \<open>What \<^verbatim>\<open>init\<close> reads of a service: \<^verbatim>\<open>service.schema.model\<close>,
  \<^verbatim>\<open>service.schema.schema\<close> and \<^verbatim>\<open>service.schema.modelName\<close>, each \<^verbatim>\<open>undefined\<close> when the
  service does not give it. The service's logger is a collaborator; its calls are
  events.\<close>

record service =
  decl_model :: jsval
  decl_schema :: jsval
  decl_modelName :: jsval

text \<open>The fields of a \<^verbatim>\<open>MongooseDbAdapter\<close> instance; a field never assigned reads as
  \<^verbatim>\<open>undefined\<close> (\<open>None\<close> for the service).\<close>

record adapter =
  uri :: jsval
  opts :: jsval
  broker :: jsval
  bound_service :: "service option"
  model :: jsval
  schema :: jsval
  modelName :: jsval
  db :: jsval

text \<open>\<^verbatim>\<open>constructor(uri, opts) { this.uri = uri, this.opts = opts; ... }\<close> (the third
  statement picks the promise implementation of the library and touches no field).\<close>

definition MongooseDbAdapter :: "jsval \<Rightarrow> jsval \<Rightarrow> adapter" where
  "MongooseDbAdapter u opt =
     \<lparr>uri = u, opts = opt, broker = Undefined, bound_service = None,
      model = Undefined, schema = Undefined, modelName = Undefined, db = Undefined\<rparr>"

definition msg_modelName_required :: string where
  "msg_modelName_required =
     ''`modelName` is required when `schema` is given in schema of service!''"

definition msg_missing_definition :: string where
  "msg_missing_definition = ''Missing `model` or `schema` definition in schema of service!''"

text \<open>
  \<^verbatim>\<open>init(broker, service) {
    this.broker = broker;
    this.service = service;
    if (this.service.schema.model) {
      this.model = this.service.schema.model;
    } else if (this.service.schema.schema) {
      if (!this.service.schema.modelName) {
        throw new ServiceSchemaError("`modelName` is required ...");
      }
      this.schema = this.service.schema.schema;
      this.modelName = this.service.schema.modelName;
    }
    if (!this.model && !this.schema) {
      throw new ServiceSchemaError("Missing `model` or `schema` definition ...");
    }
  }\<close>
  The result is the exception thrown, if any, the adapter as the call leaves it, and the
  calls made to collaborators (none: the body only reads the service and writes fields).
\<close>

definition init_resolve :: "adapter \<Rightarrow> service \<Rightarrow> error + adapter" where
  "init_resolve a svc =
     (if truthy (decl_model svc) then Inr (a\<lparr>model := decl_model svc\<rparr>)
      else if truthy (decl_schema svc) then
        (if \<not> truthy (decl_modelName svc) then
           Inl (ServiceSchemaError msg_modelName_required)
         else Inr (a\<lparr>schema := decl_schema svc, modelName := decl_modelName svc\<rparr>))
      else Inr a)"

definition init :: "adapter \<Rightarrow> jsval \<Rightarrow> service \<Rightarrow> (error + unit) \<times> adapter \<times> event list" where
  "init a b svc =
     (let a1 = a\<lparr>broker := b, bound_service := Some svc\<rparr> in
      case init_resolve a1 svc of
        Inl err \<Rightarrow> (Inl err, a1, [])
      | Inr a2 \<Rightarrow>
          (if \<not> truthy (model a2) \<and> \<not> truthy (schema a2) then
             (Inl (ServiceSchemaError msg_missing_definition), a2, [])
           else (Inr (), a2, [])))"

text \<open>The failure conditions as the specification lists them. A service declares a
  member when the member is truthy and omits it otherwise, which is the test the code
  applies to all three.\<close>

definition declares :: "jsval \<Rightarrow> bool" where
  "declares v = truthy v"

definition init_fails_spec :: "service \<Rightarrow> bool" where
  "init_fails_spec svc =
     (declares (decl_schema svc) \<and> \<not> declares (decl_modelName svc)
      \<or> (\<not> declares (decl_model svc) \<and> \<not> declares (decl_schema svc)))"

text \<open>A method body is a sequence of statements; a statement completes normally or
  returns, and a statement after one that returned does not run.\<close>

datatype 'r completion = Normal | Return 'r

type_synonym 'r stmt = "adapter \<Rightarrow> 'r completion \<times> adapter \<times> event list"

definition seq :: "'r stmt \<Rightarrow> 'r stmt \<Rightarrow> 'r stmt" where
  "seq s1 s2 a =
     (case s1 a of
        (Return r, a1, e1) \<Rightarrow> (Return r, a1, e1)
      | (Normal, a1, e1) \<Rightarrow> (case s2 a1 of (c, a2, e2) \<Rightarrow> (c, a2, e1 @ e2)))"

text \<open>How a promise has settled.\<close>

datatype promise = Resolved jsval | Rejected error

text \<open>The callback given to \<^verbatim>\<open>then\<close>:
  \<^verbatim>\<open>() => {
    this.service.logger.info("MongoDB adapter has connected successfully.");
    this.db = mongoose.connection;
    this.db.on("disconnected", ...); this.db.on("error", ...); this.db.on("reconnect", ...);
  }\<close>
  With no service bound, reading \<^verbatim>\<open>this.service.logger\<close> throws a TypeError.\<close>

definition on_connected :: "mongoose \<Rightarrow> adapter \<Rightarrow> (error + jsval) \<times> adapter \<times> event list" where
  "on_connected lib a =
     (case bound_service a of
        None \<Rightarrow> (Inl TypeError, a, [])
      | Some svc \<Rightarrow>
          (Inr Undefined, a\<lparr>db := connection lib\<rparr>,
           [Call_logger_info ''MongoDB adapter has connected successfully.'',
            Call_db_on ''disconnected'', Call_db_on ''error'', Call_db_on ''reconnect'']))"

text \<open>\<^verbatim>\<open>return mongoose.connect(this.uri, this.opts).then(() => {...})\<close>: the promise
  returned settles as the callback does when the library's promise resolves, and rejects
  with the library's reason when that one rejects. The adapter is given as it is once
  the promise has settled.\<close>

definition connect_return :: "mongoose \<Rightarrow> promise stmt" where
  "connect_return lib a =
     (case mongoose_connect lib (uri a) (opts a) of
        Inl cause \<Rightarrow> (Return (Rejected cause), a, [Call_mongoose_connect (uri a) (opts a)])
      | Inr v \<Rightarrow>
          (case on_connected lib a of
             (Inl err, a1, evs) \<Rightarrow>
               (Return (Rejected err), a1, Call_mongoose_connect (uri a) (opts a) # evs)
           | (Inr r, a1, evs) \<Rightarrow>
               (Return (Resolved r), a1, Call_mongoose_connect (uri a) (opts a) # evs)))"

text \<open>\<^verbatim>\<open>this.model = mongoose.model(this.modelName, this.schema);\<close>\<close>

definition connect_assign_model :: "mongoose \<Rightarrow> promise stmt" where
  "connect_assign_model lib a =
     (Normal, a\<lparr>model := mongoose_model lib (modelName a) (schema a)\<rparr>,
      [Call_mongoose_model (modelName a) (schema a)])"

text \<open>The body of \<^verbatim>\<open>connect()\<close> is these two statements in this order; \<open>None\<close> would be a
  call that falls off the end and gives \<^verbatim>\<open>undefined\<close>.\<close>

definition connect :: "mongoose \<Rightarrow> adapter \<Rightarrow> promise option \<times> adapter \<times> event list" where
  "connect lib a =
     (case seq (connect_return lib) (connect_assign_model lib) a of
        (Return p, a1, evs) \<Rightarrow> (Some p, a1, evs)
      | (Normal, a1, evs) \<Rightarrow> (None, a1, evs))"

section \<open>Concrete inputs\<close>

text \<open>A library whose validity check accepts the strings of 24 characters, whose
  identifiers answer both conversions with the string they were made from, whose
  schema type objects are ordinary objects without \<^verbatim>\<open>toHexString\<close>, and whose server is
  reachable under one address only.\<close>

definition lib0 :: mongoose where
  "lib0 =
     \<lparr>isValid = (\<lambda>s. length s = 24),
      new_Types_ObjectId = (\<lambda>s. Obj 20 (Some (Str s)) (Some (Str s))),
      new_Schema_Types_ObjectId = (\<lambda>s. Obj 21 None (Some (Str ''[object Object]''))),
      mongoose_connect =
        (\<lambda>u opt. if u = Str ''mongodb://server'' then Inr Undefined
                  else Inl (MongoError ''ECONNREFUSED'')),
      connection = Obj 22 None (Some (Str ''[object Object]'')),
      mongoose_model = (\<lambda>n s. Obj 23 None (Some (Str ''[object Object]'')))\<rparr>"

text \<open>A runtime in which no object other than \<^verbatim>\<open>Object.prototype\<close> passes anything on.\<close>

definition rt0 :: runtime where
  "rt0 = \<lparr>inherited_from = (\<lambda>v k. Undefined), proto_accessor_from = (\<lambda>v. False)\<rparr>"

text \<open>Stores with one ordinary record: \<^verbatim>\<open>{myID: "123", title: "t"}\<close>;
  \<^verbatim>\<open>{_id: 7, title: "t"}\<close>; and what \<^verbatim>\<open>JSON.parse('{"__proto__": 5, "myID": "123"}')\<close> gives,
  a record with a field of its own called \<^verbatim>\<open>__proto__\<close>.\<close>

definition heap_myID :: heap where
  "heap_myID =
     \<lparr>objs = (\<lambda>a. \<lparr>own = Map.empty, proto = Object_prototype\<rparr>)
         (0 := \<lparr>own = [''myID'' \<mapsto> Str ''123'', ''title'' \<mapsto> Str ''t''],
                proto = Object_prototype\<rparr>),
      next_addr = 1\<rparr>"

definition heap_id :: heap where
  "heap_id =
     \<lparr>objs = (\<lambda>a. \<lparr>own = Map.empty, proto = Object_prototype\<rparr>)
         (0 := \<lparr>own = [''_id'' \<mapsto> Num 7, ''title'' \<mapsto> Str ''t''],
                proto = Object_prototype\<rparr>),
      next_addr = 1\<rparr>"

definition heap_own_proto :: heap where
  "heap_own_proto =
     \<lparr>objs = (\<lambda>a. \<lparr>own = Map.empty, proto = Object_prototype\<rparr>)
         (0 := \<lparr>own = [''__proto__'' \<mapsto> Num 5, ''myID'' \<mapsto> Str ''123''],
                proto = Object_prototype\<rparr>),
      next_addr = 1\<rparr>"

text \<open>A string of 24 characters, which the validity check of \<open>lib0\<close> accepts.\<close>

definition hex24 :: string where
  "hex24 = ''507f1f77bcf86cd799439011''"

definition fakeModel :: jsval where
  "fakeModel = Obj 10 None (Some (Str ''function () {}''))"

definition fakeSchema :: jsval where
  "fakeSchema = Obj 11 None (Some (Str ''[object Object]''))"

definition svc_model :: service where
  "svc_model = \<lparr>decl_model = fakeModel, decl_schema = Undefined, decl_modelName = Undefined\<rparr>"

definition svc_schema_named :: service where
  "svc_schema_named =
     \<lparr>decl_model = Undefined, decl_schema = fakeSchema, decl_modelName = Str ''fakeModel''\<rparr>"

definition svc_schema_only :: service where
  "svc_schema_only =
     \<lparr>decl_model = Undefined, decl_schema = fakeSchema, decl_modelName = Undefined\<rparr>"

definition svc_none :: service where
  "svc_none = \<lparr>decl_model = Undefined, decl_schema = Undefined, decl_modelName = Undefined\<rparr>"

definition svc_model_schema :: service where
  "svc_model_schema =
     \<lparr>decl_model = fakeModel, decl_schema = fakeSchema, decl_modelName = Undefined\<rparr>"

text \<open>An adapter initialized with a schema and a model name, for a reachable server and
  for an unreachable one.\<close>

definition adapter_pending :: adapter where
  "adapter_pending =
     fst (snd (init (MongooseDbAdapter (Str ''mongodb://server'') Undefined) Null
                 svc_schema_named))"

definition adapter_down :: adapter where
  "adapter_down =
     fst (snd (init (MongooseDbAdapter (Str ''mongodb://elsewhere'') Undefined) Null
                 svc_model))"

text \<open>An entity whose identifier is the number \<open>0\<close>, serialized with that identifier.\<close>

definition entity_zero :: entity where
  "entity_zero = \<lparr>toJSON = Some [''_id'' \<mapsto> Num 0], raw_id = Num 0\<rparr>"

text \<open>The entities of the unit tests: an identifier with \<^verbatim>\<open>toHexString\<close> (and the
  \<^verbatim>\<open>toString\<close> every ordinary object inherits), and one with \<^verbatim>\<open>toString\<close> only.\<close>

definition entity_hex :: entity where
  "entity_hex =
     \<lparr>toJSON = Some Map.empty,
      raw_id = Obj 3 (Some (Str ''5f1d7f3a0b'')) (Some (Str ''[object Object]''))\<rparr>"

definition entity_str :: entity where
  "entity_str = \<lparr>toJSON = Some Map.empty, raw_id = Obj 4 None (Some (Str ''abc''))\<rparr>"

section \<open>Identifier field translation\<close>

text \<open>
  The record \<^verbatim>\<open>JSON.parse('{"__proto__": 5, "myID": "123"}')\<close> with the field name
  \<^verbatim>\<open>"myID"\<close>: the record described for \<open>beforeSaveTransformID\<close> keeps the field
  \<^verbatim>\<open>__proto__\<close> of the entry, and the record returned has no such field, because
  \<^verbatim>\<open>Object.assign\<close> hands that field to the setter of the fresh object, which drops the
  number.
\<close>

theorem beforeSaveTransformID_drops_own_proto:
  "own (objs heap_own_proto 0) ''__proto__'' = Some (Num 5)
   \<and> read_prop rt0 heap_own_proto 0 ''myID'' = Str ''123''
   \<and> fst (beforeSaveTransformID rt0 lib0 heap_own_proto 0 ''myID'') = 1
   \<and> own (objs (fst (snd (beforeSaveTransformID rt0 lib0 heap_own_proto 0 ''myID''))) 1)
         ''_id'' = Some (Str ''123'')
   \<and> own (objs (fst (snd (beforeSaveTransformID rt0 lib0 heap_own_proto 0 ''myID''))) 1)
         ''__proto__'' = None
   \<and> beforeSave_fields_spec (own (objs heap_own_proto 0)) ''myID''
         (fst (stringToObjectID lib0 (read_prop rt0 heap_own_proto 0 ''myID''))) ''__proto__''
       = Some (Num 5)
   \<and> own (objs (fst (snd (beforeSaveTransformID rt0 lib0 heap_own_proto 0 ''myID''))) 1)
       \<noteq> beforeSave_fields_spec (own (objs heap_own_proto 0)) ''myID''
           (fst (stringToObjectID lib0 (read_prop rt0 heap_own_proto 0 ''myID'')))"
proof -
  let ?out = "own (objs (fst (snd (beforeSaveTransformID rt0 lib0 heap_own_proto 0 ''myID''))) 1)"
  let ?spec = "beforeSave_fields_spec (own (objs heap_own_proto 0)) ''myID''
                 (fst (stringToObjectID lib0 (read_prop rt0 heap_own_proto 0 ''myID'')))"
  have out: "?out ''__proto__'' = None"
    by (simp add: beforeSaveTransformID_def Object_assign_new_def assign_prop_def
        assigns_through_setter_def has_proto_accessor_def set_proto_def delete_prop_def
        read_prop_def heap_own_proto_def lib0_def Let_def)
  have spec: "?spec ''__proto__'' = Some (Num 5)"
    by (simp add: beforeSave_fields_spec_def heap_own_proto_def)
  have ne: "?out \<noteq> ?spec"
    using out spec by (metis option.distinct(1))
  have rest: "own (objs heap_own_proto 0) ''__proto__'' = Some (Num 5)
      \<and> read_prop rt0 heap_own_proto 0 ''myID'' = Str ''123''
      \<and> fst (beforeSaveTransformID rt0 lib0 heap_own_proto 0 ''myID'') = 1
      \<and> ?out ''_id'' = Some (Str ''123'')"
    by (simp add: beforeSaveTransformID_def Object_assign_new_def assign_prop_def
        assigns_through_setter_def has_proto_accessor_def set_proto_def delete_prop_def
        read_prop_def heap_own_proto_def lib0_def Let_def)
  show ?thesis using out spec ne rest by blast
qed

text \<open>
  C1, amended. For a record \<open>entity\<close> of the store that has no field of its own called
  \<^verbatim>\<open>__proto__\<close> (unless that is \<open>idField\<close> itself) and a field name \<open>idField\<close>: when
  \<open>idField\<close> is not \<^verbatim>\<open>"_id"\<close> and \<^verbatim>\<open>entity[idField]\<close>, read through the prototype like any
  member, is defined, \<open>beforeSaveTransformID\<close> returns a new object (the address the store
  allocates next, hence not \<open>entity\<close>) whose own fields are those of \<open>entity\<close> with \<^verbatim>\<open>_id\<close>
  set to \<open>stringToObjectID\<close> of \<^verbatim>\<open>entity[idField]\<close> and \<open>idField\<close> removed; every object
  that existed before, \<open>entity\<close> among them, is as it was, so \<^verbatim>\<open>entity[idField]\<close> still has
  its value. When \<open>idField\<close> is \<^verbatim>\<open>"_id"\<close> or \<^verbatim>\<open>entity[idField]\<close> is undefined, the input is
  returned and the store is unchanged.
\<close>

theorem beforeSaveTransformID_copies:
  "entity < next_addr h \<Longrightarrow>
   own (objs h entity) ''__proto__'' = None \<or> idField = ''__proto__'' \<Longrightarrow>
   (idField \<noteq> ''_id'' \<and> read_prop rt h entity idField \<noteq> Undefined \<longrightarrow>
      (case beforeSaveTransformID rt lib h entity idField of
         (r, h', evs) \<Rightarrow>
           r = next_addr h \<and> r \<noteq> entity
           \<and> own (objs h' r) =
               beforeSave_fields_spec (own (objs h entity)) idField
                 (fst (stringToObjectID lib (read_prop rt h entity idField)))
           \<and> (\<forall>a. a \<noteq> r \<longrightarrow> objs h' a = objs h a)
           \<and> read_prop rt h' entity idField = read_prop rt h entity idField))
   \<and> (idField = ''_id'' \<or> read_prop rt h entity idField = Undefined \<longrightarrow>
        beforeSaveTransformID rt lib h entity idField = (entity, h, []))"
  by (auto simp: beforeSaveTransformID_def Object_assign_new_def assign_prop_def
      assigns_through_setter_def delete_prop_def read_prop_def beforeSave_fields_spec_def
      Let_def split: prod.splits option.splits)

theorem beforeSaveTransformID_copies_witness:
  "(0::nat) < next_addr heap_myID \<and> own (objs heap_myID 0) ''__proto__'' = None
   \<and> read_prop rt0 heap_myID 0 ''myID'' = Str ''123''
   \<and> fst (beforeSaveTransformID rt0 lib0 heap_myID 0 ''myID'') = 1
   \<and> own (objs (fst (snd (beforeSaveTransformID rt0 lib0 heap_myID 0 ''myID''))) 1)
       = [''_id'' \<mapsto> Str ''123'', ''title'' \<mapsto> Str ''t'']
   \<and> read_prop rt0 (fst (snd (beforeSaveTransformID rt0 lib0 heap_myID 0 ''myID''))) 0 ''myID''
       = Str ''123''
   \<and> read_prop rt0 heap_myID 0 ''constructor'' = native_function ''Object''
   \<and> fst (beforeSaveTransformID rt0 lib0 heap_myID 0 ''constructor'') = 1
   \<and> own (objs (fst (snd (beforeSaveTransformID rt0 lib0 heap_myID 0 ''constructor''))) 1)
       = [''myID'' \<mapsto> Str ''123'', ''title'' \<mapsto> Str ''t'',
          ''_id'' \<mapsto> native_function ''Object'']
   \<and> beforeSaveTransformID rt0 lib0 heap_myID 0 ''_id'' = (0, heap_myID, [])
   \<and> beforeSaveTransformID rt0 lib0 heap_myID 0 ''key'' = (0, heap_myID, [])"
  using beforeSaveTransformID_copies
      [where entity = 0 and h = heap_myID and idField = "''myID''" and lib = lib0
         and rt = rt0]
    beforeSaveTransformID_copies
      [where entity = 0 and h = heap_myID and idField = "''constructor''" and lib = lib0
         and rt = rt0]
    beforeSaveTransformID_copies
      [where entity = 0 and h = heap_myID and idField = "''_id''" and lib = lib0
         and rt = rt0]
    beforeSaveTransformID_copies
      [where entity = 0 and h = heap_myID and idField = "''key''" and lib = lib0
         and rt = rt0]
  by (auto simp: heap_myID_def lib0_def read_prop_def inherited_def
      Object_prototype_member_def Object_prototype_methods_def beforeSave_fields_spec_def
      native_function_def split: prod.splits)

text \<open>
  The ordinary record \<^verbatim>\<open>{_id: 7, title: "t"}\<close> with the field name \<^verbatim>\<open>"__proto__"\<close>: the
  assignment \<^verbatim>\<open>entity["__proto__"] = "7"\<close> goes to the inherited setter, which drops the
  string, so the record gains no field and \<^verbatim>\<open>entity["__proto__"]\<close> still reads as
  \<^verbatim>\<open>Object.prototype\<close>, not as \<^verbatim>\<open>"7"\<close>.
\<close>

theorem afterRetrieveTransformID_proto_setter:
  "fst (objectIDToString (read_prop rt0 heap_id 0 ''_id'')) = Str ''7''
   \<and> fst (afterRetrieveTransformID rt0 heap_id 0 ''__proto__'') = 0
   \<and> own (objs (fst (snd (afterRetrieveTransformID rt0 heap_id 0 ''__proto__''))) 0)
       = [''title'' \<mapsto> Str ''t'']
   \<and> read_prop rt0 (fst (snd (afterRetrieveTransformID rt0 heap_id 0 ''__proto__''))) 0
         ''__proto__'' = Object_prototype_value
   \<and> read_prop rt0 (fst (snd (afterRetrieveTransformID rt0 heap_id 0 ''__proto__''))) 0
         ''__proto__'' \<noteq> fst (objectIDToString (read_prop rt0 heap_id 0 ''_id''))"
  by (auto simp: afterRetrieveTransformID_def assign_prop_def assigns_through_setter_def
      has_proto_accessor_def set_proto_def delete_prop_def read_prop_def inherited_def
      Object_prototype_member_def Object_prototype_value_def objectIDToString_def
      heap_id_def dec_int_def dec_nat.simps)

text \<open>
  C2, amended. For a record \<open>entity\<close> and a field name \<open>idField\<close> other than \<^verbatim>\<open>"_id"\<close>,
  \<open>afterRetrieveTransformID\<close> returns \<open>entity\<close> itself, no other object changes and nothing
  is allocated. When the assignment is an ordinary one (\<open>idField\<close> is not
  \<^verbatim>\<open>"__proto__"\<close>, or \<open>entity\<close> has a field \<^verbatim>\<open>__proto__\<close> of its own, or it does not inherit
  the \<^verbatim>\<open>__proto__\<close> accessor), that very object has \<open>idField\<close> set to \<open>objectIDToString\<close>
  of its \<^verbatim>\<open>_id\<close> and then \<^verbatim>\<open>_id\<close> deleted, and keeps its prototype. When the assignment
  goes to the \<^verbatim>\<open>__proto__\<close> setter, no field is set and \<^verbatim>\<open>_id\<close> is deleted all the same.
  When \<open>idField\<close> is \<^verbatim>\<open>"_id"\<close>, it returns \<open>entity\<close> and the store is unchanged, \<^verbatim>\<open>_id\<close>
  included.
\<close>

theorem afterRetrieveTransformID_in_place:
  "(idField \<noteq> ''_id'' \<longrightarrow>
      (case afterRetrieveTransformID rt h entity idField of
         (r, h', evs) \<Rightarrow>
           r = entity
           \<and> (if assigns_through_setter rt (objs h entity) idField then
                 own (objs h' entity) = (own (objs h entity))(''_id'' := None)
               else
                 own (objs h' entity) =
                   ((own (objs h entity))
                      (idField \<mapsto> fst (objectIDToString (read_prop rt h entity ''_id''))))
                     (''_id'' := None)
                 \<and> proto (objs h' entity) = proto (objs h entity))
           \<and> (\<forall>a. a \<noteq> entity \<longrightarrow> objs h' a = objs h a)
           \<and> next_addr h' = next_addr h))
   \<and> (idField = ''_id'' \<longrightarrow> afterRetrieveTransformID rt h entity idField = (entity, h, []))"
  by (auto simp: afterRetrieveTransformID_def assign_prop_def delete_prop_def
      split: prod.splits)

theorem afterRetrieveTransformID_in_place_witness:
  "\<not> assigns_through_setter rt0 (objs heap_id 0) ''myID''
   \<and> fst (afterRetrieveTransformID rt0 heap_id 0 ''myID'') = 0
   \<and> own (objs (fst (snd (afterRetrieveTransformID rt0 heap_id 0 ''myID''))) 0)
       = [''myID'' \<mapsto> Str ''7'', ''title'' \<mapsto> Str ''t'']
   \<and> read_prop rt0 (fst (snd (afterRetrieveTransformID rt0 heap_id 0 ''myID''))) 0 ''_id''
       = Undefined
   \<and> assigns_through_setter rt0 (objs heap_id 0) ''__proto__''
   \<and> own (objs (fst (snd (afterRetrieveTransformID rt0 heap_id 0 ''__proto__''))) 0)
       = [''title'' \<mapsto> Str ''t'']
   \<and> afterRetrieveTransformID rt0 heap_id 0 ''_id'' = (0, heap_id, [])
   \<and> read_prop rt0 heap_id 0 ''_id'' = Num 7"
  using afterRetrieveTransformID_in_place
      [where idField = "''myID''" and h = heap_id and entity = 0 and rt = rt0]
    afterRetrieveTransformID_in_place
      [where idField = "''__proto__''" and h = heap_id and entity = 0 and rt = rt0]
    afterRetrieveTransformID_in_place
      [where idField = "''_id''" and h = heap_id and entity = 0 and rt = rt0]
  by (auto simp: heap_id_def read_prop_def inherited_def Object_prototype_member_def
      Object_prototype_methods_def assigns_through_setter_def has_proto_accessor_def
      objectIDToString_def dec_int_def dec_nat.simps split: prod.splits)

text \<open>
  The ordinary record \<^verbatim>\<open>{myID: "123", title: "t"}\<close> with the field name
  \<^verbatim>\<open>"constructor"\<close>: the record inherits that member, so the first application copies
  it to the address \<open>1\<close>; the copy inherits the member too, and deleting the name from
  it removes nothing, so the second application copies again, to the address \<open>2\<close>.
\<close>

theorem beforeSaveTransformID_constructor_copies_again:
  "fst (beforeSaveTransformID rt0 lib0 heap_myID 0 ''constructor'') = 1
   \<and> fst (beforeSaveTransformID rt0 lib0
            (fst (snd (beforeSaveTransformID rt0 lib0 heap_myID 0 ''constructor''))) 1
            ''constructor'') = 2
   \<and> beforeSaveTransformID rt0 lib0
        (fst (snd (beforeSaveTransformID rt0 lib0 heap_myID 0 ''constructor''))) 1
        ''constructor''
       \<noteq> (1, fst (snd (beforeSaveTransformID rt0 lib0 heap_myID 0 ''constructor'')), [])"
proof -
  let ?h1 = "fst (snd (beforeSaveTransformID rt0 lib0 heap_myID 0 ''constructor''))"
  have first: "fst (beforeSaveTransformID rt0 lib0 heap_myID 0 ''constructor'') = 1"
    by (simp add: beforeSaveTransformID_def Object_assign_new_def read_prop_def
        inherited_def Object_prototype_member_def native_function_def heap_myID_def
        Let_def split: prod.splits)
  have second: "fst (beforeSaveTransformID rt0 lib0 ?h1 1 ''constructor'') = 2"
    by (simp add: beforeSaveTransformID_def Object_assign_new_def assign_prop_def
        assigns_through_setter_def delete_prop_def read_prop_def inherited_def
        Object_prototype_member_def native_function_def heap_myID_def Let_def
        split: prod.splits)
  have "beforeSaveTransformID rt0 lib0 ?h1 1 ''constructor'' \<noteq> (1, ?h1, [])"
    using second by auto
  then show ?thesis using first second by blast
qed

text \<open>The fresh object of \<^verbatim>\<open>Object.assign({}, entity)\<close> has the prototype
  \<^verbatim>\<open>Object.prototype\<close> or none, unless \<open>entity\<close> has a field \<^verbatim>\<open>__proto__\<close> of its own that
  holds an object; and neither assigning \<^verbatim>\<open>_id\<close> nor deleting a field changes a
  prototype.\<close>

lemma set_proto_no_object:
  "(\<forall>t x y. v \<noteq> Obj t x y) \<Longrightarrow>
   set_proto Object_prototype v = Object_prototype
   \<or> set_proto Object_prototype v = Null_prototype"
  by (cases v) (simp_all add: set_proto_def)

lemma Object_assign_new_proto:
  assumes "\<forall>t x y. own (objs h entity) ''__proto__'' \<noteq> Some (Obj t x y)"
  shows "fst (Object_assign_new rt h entity) = next_addr h
    \<and> (proto (objs (snd (Object_assign_new rt h entity)) (next_addr h)) = Object_prototype
       \<or> proto (objs (snd (Object_assign_new rt h entity)) (next_addr h)) = Null_prototype)"
proof (cases "own (objs h entity) ''__proto__''")
  case None
  then show ?thesis by (simp add: Object_assign_new_def Let_def)
next
  case (Some v)
  with assms have "\<forall>t x y. v \<noteq> Obj t x y" by simp
  then have "set_proto Object_prototype v = Object_prototype
      \<or> set_proto Object_prototype v = Null_prototype"
    by (rule set_proto_no_object)
  with Some show ?thesis
    by (auto simp: Object_assign_new_def Let_def assign_prop_def assigns_through_setter_def
        has_proto_accessor_def)
qed

lemma inherited_plain:
  "Object_prototype_member k = Undefined \<Longrightarrow>
   p = Object_prototype \<or> p = Null_prototype \<Longrightarrow> inherited rt p k = Undefined"
  by (auto simp: inherited_def)

lemma assign_id_keeps_proto:
  "proto (objs (assign_prop rt h a ''_id'' v) b) = proto (objs h b)"
  by (simp add: assign_prop_def assigns_through_setter_def)

lemma delete_prop_reads:
  "proto (objs (delete_prop h a k) b) = proto (objs h b)"
  "own (objs (delete_prop h a k) a) k = None"
  by (simp_all add: delete_prop_def)

text \<open>
  C10, amended. \<open>beforeSaveTransformID\<close> is idempotent for every field name \<open>idField\<close> that
  names no member of \<^verbatim>\<open>Object.prototype\<close> (\<^verbatim>\<open>constructor\<close>, \<^verbatim>\<open>toString\<close>, \<^verbatim>\<open>__proto__\<close> and
  the like) and every record whose own field \<^verbatim>\<open>__proto__\<close>, if it has one, holds no
  object: applied with the same \<open>idField\<close> to the record and store its first application
  gave, it returns that record again, changes nothing in the store and calls nothing;
  for the first application either returned its input with the store untouched, or
  gave a record in which \<open>idField\<close> is undefined.
\<close>

theorem beforeSaveTransformID_idempotent:
  "beforeSaveTransformID rt lib h entity idField = (r, h', evs) \<Longrightarrow>
   Object_prototype_member idField = Undefined \<Longrightarrow>
   (\<forall>t x y. own (objs h entity) ''__proto__'' \<noteq> Some (Obj t x y)) \<Longrightarrow>
   beforeSaveTransformID rt lib h' r idField = (r, h', [])
   \<and> ((r = entity \<and> h' = h) \<or> read_prop rt h' r idField = Undefined)"
proof -
  assume res: "beforeSaveTransformID rt lib h entity idField = (r, h', evs)"
    and member: "Object_prototype_member idField = Undefined"
    and noobj: "\<forall>t x y. own (objs h entity) ''__proto__'' \<noteq> Some (Obj t x y)"
  show ?thesis
  proof (cases "idField \<noteq> ''_id'' \<and> read_prop rt h entity idField \<noteq> Undefined")
    case False
    with res have "r = entity" "h' = h"
      by (auto simp: beforeSaveTransformID_def)
    with False show ?thesis
      by (auto simp: beforeSaveTransformID_def)
  next
    case True
    obtain n h1 where oa: "Object_assign_new rt h entity = (n, h1)"
      by (cases "Object_assign_new rt h entity")
    obtain oid es where conv: "stringToObjectID lib (read_prop rt h1 entity idField) = (oid, es)"
      by (cases "stringToObjectID lib (read_prop rt h1 entity idField)")
    from res True oa conv have r: "r = n"
      and h': "h' = delete_prop (assign_prop rt h1 n ''_id'' oid) n idField"
      by (auto simp: beforeSaveTransformID_def)
    from Object_assign_new_proto [OF noobj, of rt] oa
    have "proto (objs h1 n) = Object_prototype \<or> proto (objs h1 n) = Null_prototype"
      by auto
    then have "proto (objs h' r) = Object_prototype \<or> proto (objs h' r) = Null_prototype"
      by (simp add: r h' delete_prop_reads assign_id_keeps_proto)
    then have inh: "inherited rt (proto (objs h' r)) idField = Undefined"
      using member by (simp add: inherited_plain)
    have "own (objs h' r) idField = None"
      by (simp add: r h' delete_prop_reads)
    with inh have rd: "read_prop rt h' r idField = Undefined"
      by (simp add: read_prop_def)
    then have "beforeSaveTransformID rt lib h' r idField = (r, h', [])"
      by (simp add: beforeSaveTransformID_def)
    with rd show ?thesis by simp
  qed
qed

theorem beforeSaveTransformID_idempotent_witness:
  "Object_prototype_member ''myID'' = Undefined
   \<and> own (objs heap_myID 0) ''__proto__'' = None
   \<and> fst (beforeSaveTransformID rt0 lib0 heap_myID 0 ''myID'') = 1
   \<and> beforeSaveTransformID rt0 lib0
        (fst (snd (beforeSaveTransformID rt0 lib0 heap_myID 0 ''myID''))) 1 ''myID''
       = (1, fst (snd (beforeSaveTransformID rt0 lib0 heap_myID 0 ''myID'')), [])"
  using beforeSaveTransformID_idempotent
      [where rt = rt0 and lib = lib0 and h = heap_myID and entity = 0
         and idField = "''myID''"
         and r = "fst (beforeSaveTransformID rt0 lib0 heap_myID 0 ''myID'')"
         and h' = "fst (snd (beforeSaveTransformID rt0 lib0 heap_myID 0 ''myID''))"
         and evs = "snd (snd (beforeSaveTransformID rt0 lib0 heap_myID 0 ''myID''))"]
  by (simp add: beforeSaveTransformID_def Object_assign_new_def assign_prop_def
      assigns_through_setter_def delete_prop_def read_prop_def inherited_def
      Object_prototype_member_def Object_prototype_methods_def heap_myID_def lib0_def
      Let_def)

section \<open>Identifier type conversion and serialization\<close>

text \<open>
  C7. The conversion is to be to the identifier type of the database, and the comment
  on \<open>stringToObjectID\<close> says it returns an \<^verbatim>\<open>ObjectID\<close>. The code checks the string with
  \<^verbatim>\<open>mongoose.Types.ObjectId.isValid\<close> and then constructs
  \<^verbatim>\<open>mongoose.Schema.Types.ObjectId\<close>, the schema type: for the string \<open>hex24\<close>, which the
  check accepts, in a library whose two constructors differ as they do in mongoose
  (the identifier has \<^verbatim>\<open>toHexString\<close>, the schema type has not), what
  \<open>stringToObjectID\<close> returns is the schema type object, not the identifier, and it has
  no \<^verbatim>\<open>toHexString\<close>.
\<close>

theorem stringToObjectID_builds_schema_type:
  "isValid lib0 hex24
   \<and> stringToObjectID lib0 (Str hex24)
       = (new_Schema_Types_ObjectId lib0 hex24,
          [Call_isValid hex24, Call_new_Schema_Types_ObjectId hex24])
   \<and> fst (stringToObjectID lib0 (Str hex24)) \<noteq> new_Types_ObjectId lib0 hex24
   \<and> toHexString (new_Types_ObjectId lib0 hex24) = Some (Str hex24)
   \<and> toHexString (fst (stringToObjectID lib0 (Str hex24))) = None"
  by (simp add: lib0_def hex24_def)

text \<open>
  X1. \<open>stringToObjectID\<close> by cases, for every library: a string that passes the validity
  check gives what \<^verbatim>\<open>new mongoose.Schema.Types.ObjectId\<close> makes of it, after one check and
  one construction; a string that fails the check is returned as it is after the one
  check; a value that is not a string is returned as it is and nothing is called, the
  validity check included. A construction happens exactly when the value is a string
  that passes the check.
\<close>

theorem stringToObjectID_cases:
  "(\<forall>s. v = Str s \<and> isValid lib s \<longrightarrow>
      stringToObjectID lib v
        = (new_Schema_Types_ObjectId lib s,
           [Call_isValid s, Call_new_Schema_Types_ObjectId s]))
   \<and> (\<forall>s. v = Str s \<and> \<not> isValid lib s \<longrightarrow> stringToObjectID lib v = (v, [Call_isValid s]))
   \<and> ((\<forall>s. v \<noteq> Str s) \<longrightarrow> stringToObjectID lib v = (v, []))
   \<and> ((\<exists>s. Call_new_Schema_Types_ObjectId s \<in> set (snd (stringToObjectID lib v)))
        = (\<exists>s. v = Str s \<and> isValid lib s))"
  by (cases v) auto

theorem stringToObjectID_cases_witness:
  "isValid lib0 hex24
   \<and> stringToObjectID lib0 (Str hex24)
       = (new_Schema_Types_ObjectId lib0 hex24,
          [Call_isValid hex24, Call_new_Schema_Types_ObjectId hex24])
   \<and> \<not> isValid lib0 ''123''
   \<and> stringToObjectID lib0 (Str ''123'') = (Str ''123'', [Call_isValid ''123''])
   \<and> stringToObjectID lib0 (Obj 7 None None) = (Obj 7 None None, [])"
  using stringToObjectID_cases [where v = "Str hex24" and lib = lib0]
    stringToObjectID_cases [where v = "Str ''123''" and lib = lib0]
    stringToObjectID_cases [where v = "Obj 7 None None" and lib = lib0]
  by (simp add: lib0_def hex24_def)

text \<open>
  The number \<open>0\<close> has the member \<^verbatim>\<open>toString\<close>, which gives \<^verbatim>\<open>"0"\<close>, and
  \<open>objectIDToString\<close> returns the number \<open>0\<close> itself: the test \<^verbatim>\<open>id && id.toString\<close> stops at
  the falsy \<open>id\<close>.
\<close>

theorem objectIDToString_zero_unconverted:
  "toString (Num 0) = Some (Str ''0'') \<and> fst (objectIDToString (Num 0)) = Num 0
   \<and> fst (objectIDToString (Num 0)) \<noteq> Str ''0''"
  by (simp add: objectIDToString_def dec_int_def dec_nat.simps)

text \<open>
  C6, amended. \<open>objectIDToString\<close> returns what the value's \<^verbatim>\<open>toString\<close> gives, calling it
  once, whenever the value is truthy and has that member; it returns the value as it is,
  calling nothing, when the value is falsy (\<^verbatim>\<open>undefined\<close>, \<^verbatim>\<open>null\<close>, \<^verbatim>\<open>false\<close>, \<open>0\<close>, the
  empty string) or has no such member.
\<close>

theorem objectIDToString_truthy:
  "(truthy v \<and> toString v = Some r \<longrightarrow> objectIDToString v = (r, [Call_toString v]))
   \<and> (\<not> truthy v \<or> toString v = None \<longrightarrow> objectIDToString v = (v, []))"
  by (auto simp: objectIDToString_def)

theorem objectIDToString_truthy_witness:
  "truthy (Num 15) \<and> toString (Num 15) = Some (Str ''15'')
   \<and> objectIDToString (Num 15) = (Str ''15'', [Call_toString (Num 15)])
   \<and> \<not> truthy (Bool False) \<and> objectIDToString (Bool False) = (Bool False, [])
   \<and> toString (Obj 7 None None) = None
   \<and> objectIDToString (Obj 7 None None) = (Obj 7 None None, [])"
  using objectIDToString_truthy [where v = "Num 15" and r = "Str ''15''"]
    objectIDToString_truthy [where v = "Bool False" and r = "Str ''false''"]
    objectIDToString_truthy [where v = "Obj 7 None None" and r = Undefined]
  by (simp add: dec_int_def dec_nat.simps)

text \<open>
  An entity whose identifier is the number \<open>0\<close> and whose serialization carries that
  \<open>0\<close>: the identifier has \<^verbatim>\<open>toString\<close>, so the two-tier rule as worded gives \<^verbatim>\<open>"0"\<close>, and
  \<open>entityToObject\<close> leaves the \<open>0\<close>, calling no conversion.
\<close>

theorem entityToObject_zero_unconverted:
  "toJSON entity_zero = Some [''_id'' \<mapsto> Num 0]
   \<and> toHexString (raw_id entity_zero) = None
   \<and> toString (raw_id entity_zero) = Some (Str ''0'')
   \<and> entityToObject entity_zero = (Inr [''_id'' \<mapsto> Num 0], [Call_toJSON])
   \<and> entityToObject_spec entity_zero [''_id'' \<mapsto> Num 0]
       = ([''_id'' \<mapsto> Str ''0''], [Call_toJSON, Call_toString (Num 0)])
   \<and> fst (entityToObject entity_zero)
       \<noteq> Inr (fst (entityToObject_spec entity_zero [''_id'' \<mapsto> Num 0]))"
  by (simp add: entity_zero_def entityToObject_def entityToObject_spec_def dec_int_def
      dec_nat.simps fun_eq_iff)

text \<open>
  C5, amended. For an entity that has \<^verbatim>\<open>toJSON\<close>, \<open>entityToObject\<close> gives the serialized
  record with \<^verbatim>\<open>_id\<close> normalized in two tiers: when the raw identifier has
  \<^verbatim>\<open>toHexString\<close>, that conversion is called and the generic one is not; else when the raw
  identifier is truthy and has \<^verbatim>\<open>toString\<close>, that one is called; else, which includes the
  falsy identifiers \<open>0\<close>, the empty string and \<^verbatim>\<open>false\<close>, the serialized record is left as
  it is.
\<close>

theorem entityToObject_two_tiers:
  "toJSON e = Some json \<Longrightarrow>
   (toHexString (raw_id e) = Some r \<longrightarrow>
      entityToObject e
        = (Inr (json(''_id'' \<mapsto> r)), [Call_toJSON, Call_toHexString (raw_id e)]))
   \<and> (truthy (raw_id e) \<and> toHexString (raw_id e) = None \<and> toString (raw_id e) = Some r \<longrightarrow>
      entityToObject e
        = (Inr (json(''_id'' \<mapsto> r)), [Call_toJSON, Call_toString (raw_id e)]))
   \<and> (toHexString (raw_id e) = None \<and> (\<not> truthy (raw_id e) \<or> toString (raw_id e) = None) \<longrightarrow>
      entityToObject e = (Inr json, [Call_toJSON]))"
  by (cases "raw_id e") (auto simp: entityToObject_def)

theorem entityToObject_two_tiers_witness:
  "toJSON entity_hex = Some Map.empty
   \<and> entityToObject entity_hex
       = (Inr [''_id'' \<mapsto> Str ''5f1d7f3a0b''], [Call_toJSON, Call_toHexString (raw_id entity_hex)])
   \<and> toJSON entity_str = Some Map.empty
   \<and> entityToObject entity_str
       = (Inr [''_id'' \<mapsto> Str ''abc''], [Call_toJSON, Call_toString (raw_id entity_str)])
   \<and> entityToObject entity_zero = (Inr [''_id'' \<mapsto> Num 0], [Call_toJSON])"
  using entityToObject_two_tiers
      [where e = entity_hex and json = Map.empty and r = "Str ''5f1d7f3a0b''"]
    entityToObject_two_tiers [where e = entity_str and json = Map.empty and r = "Str ''abc''"]
    entityToObject_two_tiers
      [where e = entity_zero and json = "[''_id'' \<mapsto> Num 0]" and r = Undefined]
  by (simp add: entity_hex_def entity_str_def entity_zero_def)

section \<open>Initialization\<close>

text \<open>
  A service that gives a model and a schema but no model name: it declares \<^verbatim>\<open>schema\<close> and
  omits \<^verbatim>\<open>modelName\<close>, which is the first failure condition as listed, and \<open>init\<close> on a
  new adapter returns normally, because the model is looked at first.
\<close>

theorem init_model_before_schema:
  "init_fails_spec svc_model_schema
   \<and> fst (init (MongooseDbAdapter (Str ''mongodb://server'') Undefined) Null svc_model_schema)
       = Inr ()"
  by (simp add: init_fails_spec_def declares_def svc_model_schema_def fakeModel_def
      fakeSchema_def init_def init_resolve_def MongooseDbAdapter_def)

text \<open>
  C3, amended. On a newly constructed adapter, \<open>init\<close> throws a \<open>ServiceSchemaError\<close> if and
  only if the service declares no \<^verbatim>\<open>model\<close> and either declares \<^verbatim>\<open>schema\<close> but omits
  \<^verbatim>\<open>modelName\<close>, or declares no \<^verbatim>\<open>schema\<close> either (declared meaning truthy). It throws
  nothing else; and whether it throws or returns, it has called no collaborator and the
  adapter holds no connection handle: the error comes from the call itself, before
  any connection attempt.
\<close>

theorem init_fails_iff:
  "((\<exists>msg. fst (init (MongooseDbAdapter u opt) b svc) = Inl (ServiceSchemaError msg))
      = (\<not> declares (decl_model svc) \<and> init_fails_spec svc))
   \<and> (fst (init (MongooseDbAdapter u opt) b svc) = Inr ()
      \<or> (\<exists>msg. fst (init (MongooseDbAdapter u opt) b svc) = Inl (ServiceSchemaError msg)))
   \<and> snd (snd (init (MongooseDbAdapter u opt) b svc)) = []
   \<and> db (fst (snd (init (MongooseDbAdapter u opt) b svc))) = Undefined"
  by (auto simp: init_fails_spec_def declares_def init_def init_resolve_def
      MongooseDbAdapter_def Let_def)

theorem init_fails_iff_witness:
  "fst (init (MongooseDbAdapter (Str ''mongodb://server'') Undefined) Null svc_schema_only)
     = Inl (ServiceSchemaError msg_modelName_required)
   \<and> fst (init (MongooseDbAdapter (Str ''mongodb://server'') Undefined) Null svc_none)
     = Inl (ServiceSchemaError msg_missing_definition)
   \<and> fst (init (MongooseDbAdapter (Str ''mongodb://server'') Undefined) Null
            svc_schema_named) = Inr ()
   \<and> \<not> declares (decl_model svc_schema_only) \<and> init_fails_spec svc_schema_only
   \<and> \<not> declares (decl_model svc_none) \<and> init_fails_spec svc_none
   \<and> \<not> init_fails_spec svc_schema_named"
  using init_fails_iff
      [where u = "Str ''mongodb://server''" and opt = Undefined and b = Null
         and svc = svc_schema_only]
    init_fails_iff
      [where u = "Str ''mongodb://server''" and opt = Undefined and b = Null
         and svc = svc_none]
    init_fails_iff
      [where u = "Str ''mongodb://server''" and opt = Undefined and b = Null
         and svc = svc_schema_named]
  by (simp add: init_fails_spec_def declares_def svc_schema_only_def svc_none_def
      svc_schema_named_def fakeModel_def fakeSchema_def init_def init_resolve_def
      MongooseDbAdapter_def)

text \<open>
  C4. When \<open>init\<close> on a newly constructed adapter returns normally, the adapter \<open>a'\<close> it
  leaves has either its \<open>model\<close> set and \<open>schema\<close> and \<open>modelName\<close> unset, or its \<open>model\<close>
  unset and both \<open>schema\<close> and \<open>modelName\<close> set: one of the two, never both and never
  neither. A service that declares \<^verbatim>\<open>model\<close> (whatever else it declares) gives the first,
  with that model.
\<close>

theorem init_exactly_one:
  "fst (init (MongooseDbAdapter u opt) b svc) = Inr () \<Longrightarrow>
   a' = fst (snd (init (MongooseDbAdapter u opt) b svc)) \<Longrightarrow>
   ((model a' \<noteq> Undefined \<and> schema a' = Undefined \<and> modelName a' = Undefined)
     \<or> (model a' = Undefined \<and> schema a' \<noteq> Undefined \<and> modelName a' \<noteq> Undefined))
   \<and> (declares (decl_model svc) \<longrightarrow>
        model a' = decl_model svc \<and> schema a' = Undefined \<and> modelName a' = Undefined)
   \<and> (\<not> declares (decl_model svc) \<longrightarrow>
        model a' = Undefined \<and> schema a' = decl_schema svc
        \<and> modelName a' = decl_modelName svc)"
  by (auto simp: declares_def init_def init_resolve_def MongooseDbAdapter_def Let_def
      split: if_splits)

theorem init_exactly_one_witness:
  "fst (init (MongooseDbAdapter (Str ''mongodb://server'') Undefined) Null svc_model_schema)
     = Inr ()
   \<and> model (fst (snd (init (MongooseDbAdapter (Str ''mongodb://server'') Undefined) Null
                        svc_model_schema))) = fakeModel
   \<and> schema (fst (snd (init (MongooseDbAdapter (Str ''mongodb://server'') Undefined) Null
                         svc_model_schema))) = Undefined
   \<and> modelName (fst (snd (init (MongooseDbAdapter (Str ''mongodb://server'') Undefined) Null
                            svc_model_schema))) = Undefined
   \<and> fst (init (MongooseDbAdapter (Str ''mongodb://server'') Undefined) Null
            svc_schema_named) = Inr ()
   \<and> model adapter_pending = Undefined
   \<and> schema adapter_pending = fakeSchema
   \<and> modelName adapter_pending = Str ''fakeModel''"
  using init_exactly_one
      [where u = "Str ''mongodb://server''" and opt = Undefined and b = Null
         and svc = svc_model_schema
         and a' = "fst (snd (init (MongooseDbAdapter (Str ''mongodb://server'') Undefined)
                               Null svc_model_schema))"]
    init_exactly_one
      [where u = "Str ''mongodb://server''" and opt = Undefined and b = Null
         and svc = svc_schema_named and a' = adapter_pending]
  by (simp add: adapter_pending_def declares_def svc_model_schema_def svc_schema_named_def
      fakeModel_def fakeSchema_def init_def init_resolve_def MongooseDbAdapter_def)

section \<open>Connection\<close>

text \<open>
  C8. \<open>connect\<close> never assigns the model: whatever the adapter and however the library's
  promise settles, \<open>connect\<close> returns a promise (it does not fall off the end), the
  library's \<^verbatim>\<open>model\<close> function is not called, and \<open>model\<close>, \<open>schema\<close> and \<open>modelName\<close> of
  the adapter are what they were; in particular an adapter with a pending schema and
  model name keeps them and keeps its model unset.
\<close>

theorem connect_keeps_model:
  "connect lib a = (r, a', evs) \<Longrightarrow>
   model a' = model a \<and> schema a' = schema a \<and> modelName a' = modelName a
   \<and> (\<forall>n s. Call_mongoose_model n s \<notin> set evs) \<and> r \<noteq> None"
  by (auto simp: connect_def seq_def connect_return_def on_connected_def
      split: sum.splits option.splits prod.splits completion.splits)

theorem connect_keeps_model_witness:
  "fst (connect lib0 adapter_pending) = Some (Resolved Undefined)
   \<and> model (fst (snd (connect lib0 adapter_pending))) = Undefined
   \<and> schema (fst (snd (connect lib0 adapter_pending))) = fakeSchema
   \<and> modelName (fst (snd (connect lib0 adapter_pending))) = Str ''fakeModel''
   \<and> db (fst (snd (connect lib0 adapter_pending))) = connection lib0"
  using connect_keeps_model
      [where lib = lib0 and a = adapter_pending
         and r = "fst (connect lib0 adapter_pending)"
         and a' = "fst (snd (connect lib0 adapter_pending))"
         and evs = "snd (snd (connect lib0 adapter_pending))"]
  by (simp add: connect_def seq_def connect_return_def on_connected_def adapter_pending_def
      lib0_def svc_schema_named_def fakeSchema_def init_def init_resolve_def
      MongooseDbAdapter_def)

text \<open>
  C9. When the library's connection attempt fails with \<open>cause\<close>, the promise \<open>connect\<close>
  returns is rejected with that same \<open>cause\<close> (the connection error of the
  specification, handed to the caller as the library gave it), the library's \<^verbatim>\<open>connect\<close>
  has been called exactly once and nothing else has been called (no retry), and the
  adapter is unchanged.
\<close>

theorem connect_failure_propagates:
  "mongoose_connect lib (uri a) (opts a) = Inl cause \<Longrightarrow>
   connect lib a = (Some (Rejected cause), a, [Call_mongoose_connect (uri a) (opts a)])"
  by (simp add: connect_def seq_def connect_return_def)

theorem connect_failure_propagates_witness:
  "mongoose_connect lib0 (uri adapter_down) (opts adapter_down)
     = Inl (MongoError ''ECONNREFUSED'')
   \<and> connect lib0 adapter_down
       = (Some (Rejected (MongoError ''ECONNREFUSED'')), adapter_down,
          [Call_mongoose_connect (Str ''mongodb://elsewhere'') Undefined])"
  using connect_failure_propagates
      [where lib = lib0 and a = adapter_down and cause = "MongoError ''ECONNREFUSED''"]
  by (simp add: adapter_down_def lib0_def svc_model_def fakeModel_def init_def
      init_resolve_def MongooseDbAdapter_def)

end
